theory Spec2Isabelle
  imports Main "HOL-Library.Word"
begin

section \<open>The Hetzner manager of the cluster autoscaler\<close>

text \<open>
  A shallow embedding of \<^verbatim>\<open>cluster-autoscaler/cloudprovider/hetzner/hetzner_manager.go\<close>.
  Go's multiple return values \<^verbatim>\<open>(value, error)\<close> are pairs whose components are
  options: \<open>None\<close> is \<^verbatim>\<open>nil\<close>. A Go \<^verbatim>\<open>error\<close> is the message its
  \<^verbatim>\<open>Error()\<close> method gives, which is what \<^verbatim>\<open>%s\<close> and \<^verbatim>\<open>%v\<close> print. A method
  with a pointer receiver returns the manager it leaves behind next to its results.
\<close>

subsection \<open>Library functions of package strings\<close>

type_synonym error = string

text \<open>\<^verbatim>\<open>strings.HasPrefix(s, prefix)\<close>:
  \<^verbatim>\<open>len(s) >= len(prefix) && s[:len(prefix)] == prefix\<close>.\<close>

definition strings_HasPrefix :: "string \<Rightarrow> string \<Rightarrow> bool" where
  "strings_HasPrefix s pre = (length pre \<le> length s \<and> take (length pre) s = pre)"

text \<open>\<^verbatim>\<open>strings.TrimPrefix(s, prefix)\<close>: \<^verbatim>\<open>s\<close> without the leading \<^verbatim>\<open>prefix\<close>, and
  \<^verbatim>\<open>s\<close> itself when it does not start with it.\<close>

definition strings_TrimPrefix :: "string \<Rightarrow> string \<Rightarrow> string" where
  "strings_TrimPrefix s pre = (if strings_HasPrefix s pre then drop (length pre) s else s)"

text \<open>The loop of \<^verbatim>\<open>strings.Split(s, sep)\<close> for a separator that is not empty: cut at the
  leftmost occurrence of \<^verbatim>\<open>sep\<close>, go on behind it, and end with what is left, so the result
  has one field more than \<^verbatim>\<open>s\<close> has separators. \<open>cur\<close> is the field being read.\<close>

function genSplit :: "string \<Rightarrow> string \<Rightarrow> string \<Rightarrow> string list" where
  "genSplit sep cur s =
     (if s = [] then [cur]
      else if sep \<noteq> [] \<and> strings_HasPrefix s sep
        then cur # genSplit sep [] (drop (length sep) s)
      else genSplit sep (cur @ [hd s]) (tl s))"
  by pat_completeness auto
termination
  by (relation "measure (\<lambda>(sep, cur, s). length s)") auto

text \<open>\<^verbatim>\<open>strings.Split(s, sep)\<close>. With an empty separator Go splits after each UTF-8
  sequence; the manager only ever passes \<^verbatim>\<open>","\<close>, and the model splits after each byte
  there.\<close>

definition strings_Split :: "string \<Rightarrow> string \<Rightarrow> string list" where
  "strings_Split s sep = (if sep = [] then map (\<lambda>c. [c]) s else genSplit sep [] s)"

subsection \<open>The data the manager works on\<close>

text \<open>\<^verbatim>\<open>apiv1.Node\<close>: the manager reads \<^verbatim>\<open>node.Name\<close> and \<^verbatim>\<open>node.Spec.ProviderID\<close> only.\<close>

record Node =
  Name :: string
  ProviderID :: string

text \<open>Modelled from the spec: the declaration of \<^verbatim>\<open>hetznerNodeGroup\<close> is in another file of
  the package. The manager writes the fields below, and the spec gives the three sizes as
  integers. The manager sets them from the constant \<^verbatim>\<open>0\<close> and computes
  \<^verbatim>\<open>targetSize += 1\<close> on them, which is machine arithmetic: they are of Go's type \<^verbatim>\<open>int\<close>,
  64 bits wide on the platforms the autoscaler is built for. Here they are 64-bit words:
  \<open>+\<close> wraps around, and \<open>sint\<close> reads a word as the signed number Go takes it for. The
  field \<^verbatim>\<open>manager\<close>, a pointer back to the manager that owns the group, is left out: no
  method of the manager reads it.\<close>

record hetznerNodeGroup =
  instanceType :: string
  region :: string
  targetSize :: "64 word"
  maxSize :: "64 word"
  minSize :: "64 word"
  id' :: string

text \<open>The calls the manager makes through \<^verbatim>\<open>m.client.Server\<close>, with the arguments it passes
  (\<^verbatim>\<open>ServerAllWithOpts\<close>: \<^verbatim>\<open>PerPage\<close> and \<^verbatim>\<open>LabelSelector\<close> of the list options). \<open>'s\<close> is
  \<^verbatim>\<open>hcloud.Server\<close>.\<close>

datatype 's api_call =
  ServerGet string
  | ServerDelete 's
  | ServerAllWithOpts nat string

text \<open>What the remote API answers. The cloud is outside the program, so its answers are a
  parameter: each may depend on the calls made before. \<^verbatim>\<open>Server.Get\<close> gives
  \<^verbatim>\<open>(*Server, *Response, error)\<close>, \<^verbatim>\<open>Server.Delete\<close> gives \<^verbatim>\<open>(*Response, error)\<close>,
  \<^verbatim>\<open>Server.AllWithOpts\<close> gives \<^verbatim>\<open>([]*Server, error)\<close>; the manager drops every
  \<^verbatim>\<open>*Response\<close>.\<close>

record 's hcloud_API =
  answerGet :: "'s api_call list \<Rightarrow> string \<Rightarrow> 's option \<times> error option"
  answerDelete :: "'s api_call list \<Rightarrow> 's \<Rightarrow> error option"
  answerAllWithOpts :: "'s api_call list \<Rightarrow> nat \<Rightarrow> string \<Rightarrow> 's list \<times> error option"

text \<open>\<^verbatim>\<open>hcloud.Client\<close>: the token it was made with, the API behind it, and the calls made
  through it so far. The list of calls is what "issues a remote call" means below.\<close>

record 's hcloud_Client =
  token :: string
  remote :: "'s hcloud_API"
  calls :: "'s api_call list"

datatype Context = Background

text \<open>\<^verbatim>\<open>hetznerManager\<close>. \<open>'t\<close> is \<^verbatim>\<open>template.Template\<close>; \<open>nameTemplate = None\<close> is the
  \<^verbatim>\<open>nil\<close> template.\<close>

record ('s, 't) hetznerManager =
  client :: "'s hcloud_Client"
  nodeGroups :: "string \<rightharpoonup> hetznerNodeGroup"
  apiCallContext :: Context
  cloudInit :: string
  image' :: string
  nameTemplate :: "'t option"
  sshKeys :: "string list"

text \<open>What \<^verbatim>\<open>newManager\<close> takes from outside the program: the process environment, the
  base64 decoder (\<^verbatim>\<open>([]byte, error)\<close>), the template parser that is given the names of the
  function map and the source (\<^verbatim>\<open>(*Template, error)\<close>), and the API the new client talks
  to.\<close>

record ('s, 't) externals =
  environ :: "string \<rightharpoonup> string"
  base64_DecodeString :: "string \<Rightarrow> string \<times> error option"
  template_Parse :: "string list \<Rightarrow> string \<Rightarrow> 't option \<times> error option"
  hcloud :: "'s hcloud_API"

text \<open>\<^verbatim>\<open>os.Getenv\<close>: the value of the variable, empty when it is not set.\<close>

definition os_Getenv :: "(string \<rightharpoonup> string) \<Rightarrow> string \<Rightarrow> string" where
  "os_Getenv env key = (case env key of None \<Rightarrow> [] | Some v \<Rightarrow> v)"

text \<open>The keys of \<^verbatim>\<open>nameTemplateFuncMap\<close>, in the order of the source. The lines the source
  comments out (\<^verbatim>\<open>fieldsFunc\<close>, \<^verbatim>\<open>index\<close>, \<^verbatim>\<open>indexFunc\<close>, \<^verbatim>\<open>lastIndexFunc\<close>, \<^verbatim>\<open>map\<close>,
  \<^verbatim>\<open>title\<close>, \<^verbatim>\<open>toLowerSpecial\<close>, \<^verbatim>\<open>toTitleSpecial\<close>, \<^verbatim>\<open>toUpperSpecial\<close>, \<^verbatim>\<open>trimFunc\<close>,
  \<^verbatim>\<open>trimLeftFunc\<close>, \<^verbatim>\<open>trimRightFunc\<close>) are not entries of the map.\<close>

definition nameTemplateFuncMap :: "string list" where
  "nameTemplateFuncMap =
    [''compare'', ''contains'', ''containsAny'', ''containsRune'', ''count'', ''equalFold'',
     ''fields'', ''hasPrefix'', ''hasSuffix'', ''indexAny'', ''indexByte'', ''indexRune'',
     ''join'', ''lastIndex'', ''lastIndexAny'', ''lastIndexByte'', ''repeat'', ''replace'',
     ''replaceAll'', ''split'', ''splitAfter'', ''splitAfterN'', ''splitN'', ''toLower'',
     ''toTitle'', ''toUpper'', ''toValidUTF8'', ''trim'', ''trimLeft'', ''trimPrefix'',
     ''trimRight'', ''trimSpace'', ''trimSuffix'']"

subsection \<open>The client\<close>

definition NewClient :: "'s hcloud_API \<Rightarrow> string \<Rightarrow> 's hcloud_Client" where
  "NewClient api tok = \<lparr>token = tok, remote = api, calls = []\<rparr>"

definition Server_Get ::
  "'s hcloud_Client \<Rightarrow> string \<Rightarrow> ('s option \<times> error option) \<times> 's hcloud_Client" where
  "Server_Get c idOrName =
     (answerGet (remote c) (calls c) idOrName, c\<lparr>calls := calls c @ [ServerGet idOrName]\<rparr>)"

definition Server_Delete :: "'s hcloud_Client \<Rightarrow> 's \<Rightarrow> error option \<times> 's hcloud_Client" where
  "Server_Delete c server =
     (answerDelete (remote c) (calls c) server, c\<lparr>calls := calls c @ [ServerDelete server]\<rparr>)"


subsection \<open>The manager\<close>

text \<open>\<^verbatim>\<open>newManager\<close>. The constant \<^verbatim>\<open>drainingNodePoolId\<close> is declared in another file of the
  package and is a parameter here.\<close>

definition newManager ::
  "('s, 't) externals \<Rightarrow> string \<Rightarrow> ('s, 't) hetznerManager option \<times> error option" where
  "newManager ext drainingNodePoolId =
    (let tok = os_Getenv (environ ext) ''HCLOUD_TOKEN'' in
     if tok = [] then (None, Some ''`HCLOUD_TOKEN` is not specified'')
     else
       let cloudInitBase64 = os_Getenv (environ ext) ''HCLOUD_CLOUD_INIT'' in
       if cloudInitBase64 = [] then (None, Some ''`HCLOUD_CLOUD_INIT` is not specified'')
       else
         let image0 = os_Getenv (environ ext) ''HCLOUD_IMAGE'';
             image1 = (if image0 = [] then ''ubuntu-20.04'' else image0);
             nameTemplateStr = os_Getenv (environ ext) ''HCLOUD_NAME_TEMPLATE'';
             parsed = (if nameTemplateStr \<noteq> []
                       then template_Parse ext nameTemplateFuncMap nameTemplateStr
                       else (None, None))
         in case snd parsed of
              Some err \<Rightarrow> (None, Some (''failed to parse name template: '' @ err))
            | None \<Rightarrow>
                let keys = strings_Split (os_Getenv (environ ext) ''HCLOUD_SSH_KEY'') '','';
                    cl = NewClient (hcloud ext) tok;
                    ctx = Background;
                    decoded = base64_DecodeString ext cloudInitBase64
                in case snd decoded of
                     Some err \<Rightarrow> (None, Some (''failed to parse cloud init error: '' @ err))
                   | None \<Rightarrow>
                       let m = \<lparr>client = cl, nodeGroups = Map.empty, apiCallContext = ctx,
                                cloudInit = fst decoded, image' = image1,
                                nameTemplate = fst parsed, sshKeys = keys\<rparr>
                       in (Some (m\<lparr>nodeGroups := (nodeGroups m)(drainingNodePoolId \<mapsto>
                                  \<lparr>instanceType = ''cx11'', region = ''fsn1'', targetSize = 0,
                                   maxSize = 0, minSize = 0, id' = drainingNodePoolId\<rparr>)\<rparr>),
                           None))"



text \<open>The local \<^verbatim>\<open>nodeIdOrName\<close> of \<^verbatim>\<open>serverForNode\<close>. The constant \<^verbatim>\<open>providerIDPrefix\<close> is
  declared in another file of the package and is a parameter here.\<close>

definition nodeIdOrName :: "string \<Rightarrow> Node \<Rightarrow> string" where
  "nodeIdOrName providerIDPrefix node =
    (if ProviderID node \<noteq> [] then strings_TrimPrefix (ProviderID node) providerIDPrefix
     else Name node)"

definition serverForNode ::
  "string \<Rightarrow> ('s, 't) hetznerManager \<Rightarrow> Node \<Rightarrow>
     ('s option \<times> error option) \<times> ('s, 't) hetznerManager" where
  "serverForNode providerIDPrefix m node =
    (case Server_Get (client m) (nodeIdOrName providerIDPrefix node) of
       ((server, Some err), c) \<Rightarrow>
         ((None, Some (''failed to get servers for node '' @ Name node @ '' error: '' @ err)),
          m\<lparr>client := c\<rparr>)
     | ((server, None), c) \<Rightarrow> ((server, None), m\<lparr>client := c\<rparr>))"

text \<open>\<^verbatim>\<open>deleteServer\<close>: the error of \<^verbatim>\<open>Server.Delete\<close>, as it is. The server is not
  \<^verbatim>\<open>nil\<close>: \<^verbatim>\<open>deleteByNode\<close>, the caller in this file, has checked.\<close>

definition deleteServer ::
  "('s, 't) hetznerManager \<Rightarrow> 's \<Rightarrow> error option \<times> ('s, 't) hetznerManager" where
  "deleteServer m server =
    (case Server_Delete (client m) server of (err, c) \<Rightarrow> (err, m\<lparr>client := c\<rparr>))"

definition deleteByNode ::
  "string \<Rightarrow> ('s, 't) hetznerManager \<Rightarrow> Node \<Rightarrow> error option \<times> ('s, 't) hetznerManager" where
  "deleteByNode providerIDPrefix m node =
    (case serverForNode providerIDPrefix m node of
       ((server, Some err), m1) \<Rightarrow>
         (Some (''failed to delete node '' @ Name node @ '' error: '' @ err), m1)
     | ((None, None), m1) \<Rightarrow>
         (Some (''failed to delete node '' @ Name node @ '' server not found''), m1)
     | ((Some server, None), m1) \<Rightarrow> deleteServer m1 server)"

text \<open>\<^verbatim>\<open>addNodeToDrainingPool\<close>. \<^verbatim>\<open>m.nodeGroups[drainingNodePoolId]\<close> is the \<^verbatim>\<open>nil\<close> pointer
  when the map has no such key, and \<^verbatim>\<open>.targetSize += 1\<close> on it panics: the result \<open>None\<close>.
  Otherwise the method returns the group, which the map holds by pointer, after the
  increment, and \<^verbatim>\<open>nil\<close> for the error. The increment is the one of the 64-bit word: from
  the largest signed value it goes to the smallest.\<close>

definition addNodeToDrainingPool ::
  "string \<Rightarrow> ('s, 't) hetznerManager \<Rightarrow> Node \<Rightarrow>
     ((hetznerNodeGroup option \<times> error option) \<times> ('s, 't) hetznerManager) option" where
  "addNodeToDrainingPool drainingNodePoolId m node =
    (case nodeGroups m drainingNodePoolId of
       None \<Rightarrow> None
     | Some g \<Rightarrow>
         let g1 = g\<lparr>targetSize := targetSize g + 1\<rparr>;
             m1 = m\<lparr>nodeGroups := (nodeGroups m)(drainingNodePoolId \<mapsto> g1)\<rparr>
         in Some ((nodeGroups m1 drainingNodePoolId, None), m1))"

subsection \<open>Sequences of calls\<close>

text \<open>\<^verbatim>\<open>addNodeToDrainingPool\<close> called once for each node of a list, one call after the other,
  on the manager the call before has left. \<open>None\<close> when a call panics.\<close>

fun drainAll ::
  "string \<Rightarrow> ('s, 't) hetznerManager \<Rightarrow> Node list \<Rightarrow> ('s, 't) hetznerManager option" where
  "drainAll drainingNodePoolId m [] = Some m"
| "drainAll drainingNodePoolId m (node # nodes) =
     (case addNodeToDrainingPool drainingNodePoolId m node of
        None \<Rightarrow> None
      | Some (r, m1) \<Rightarrow> drainAll drainingNodePoolId m1 nodes)"





subsection \<open>The index family of package strings\<close>



subsection \<open>The functions a template applies\<close>

text \<open>\<^verbatim>\<open>text/template\<close> is not part of the repository. What is modelled of it is how its
  lexer finds the functions a template source applies, since the parser looks each of them up
  in the function map it was given and in its own builtins and refuses the source with
  \<^verbatim>\<open>function "f" not defined\<close> when it is in neither. Everything else the parser does stays
  a parameter (\<open>template_Parse\<close>).\<close>

text \<open>The builtin functions of \<^verbatim>\<open>text/template\<close>.\<close>

definition templateBuiltins :: "string list" where
  "templateBuiltins =
    [''and'', ''call'', ''html'', ''index'', ''slice'', ''js'', ''len'', ''not'', ''or'',
     ''print'', ''printf'', ''println'', ''urlquery'', ''eq'', ''ge'', ''gt'', ''le'', ''lt'',
     ''ne'']"

text \<open>The words the lexer does not read as identifiers: its keywords and constants.\<close>

definition templateKeywords :: "string list" where
  "templateKeywords =
    [''block'', ''break'', ''continue'', ''define'', ''else'', ''end'', ''if'', ''range'',
     ''nil'', ''template'', ''with'', ''true'', ''false'']"

text \<open>The characters of a word (\<^verbatim>\<open>isAlphaNumeric\<close>: letters, digits and \<^verbatim>\<open>_\<close>; every byte
  of a character outside ASCII counts as a letter here), the digits, and the spaces that may
  follow the \<^verbatim>\<open>-\<close> of a left trim marker.\<close>

definition isWordChar :: "char \<Rightarrow> bool" where
  "isWordChar c =
    (let n = (of_char c :: nat) in
     (65 \<le> n \<and> n \<le> 90) \<or> (97 \<le> n \<and> n \<le> 122) \<or> (48 \<le> n \<and> n \<le> 57) \<or> n = 95 \<or> 128 \<le> n)"

definition isDigit :: "char \<Rightarrow> bool" where
  "isDigit c = (let n = (of_char c :: nat) in 48 \<le> n \<and> n \<le> 57)"

definition isSpace :: "char \<Rightarrow> bool" where
  "isSpace c = (c = CHR '' '' \<or> c = CHR 0x09 \<or> c = CHR 0x0D \<or> c = CHR 0x0A)"

text \<open>Where the lexer is: in the text between actions (\<open>SawBrace\<close>: after one \<^verbatim>\<open>{\<close>); just
  behind \<^verbatim>\<open>{{\<close>, where a trim marker \<^verbatim>\<open>-\<close> with a space and a comment \<^verbatim>\<open>/*\<close> may follow;
  in a comment; in an action behind the character \<open>prev\<close>; in a word of an action, begun on
  some line, that is an identifier or not; behind one \<^verbatim>\<open>}\<close>; in a quoted string or
  character constant, behind a backslash or not; in a raw string.\<close>

datatype lexState =
  InText
  | SawBrace
  | Opened
  | OpenedDash
  | Trimmed
  | OpenedSlash
  | InComment
  | CommentStar
  | InAction char
  | InWord bool string nat
  | ClosingBrace
  | InQuote char bool
  | InRaw

text \<open>A character read in an action, behind the character \<open>prev\<close>. A word begins with a word
  character. It is a field behind \<^verbatim>\<open>.\<close>, a variable behind \<^verbatim>\<open>$\<close> and (part of) a number when
  it begins with a digit; otherwise it is an identifier, a keyword or a constant.\<close>

definition actionStep :: "char \<Rightarrow> nat \<Rightarrow> char \<Rightarrow> lexState" where
  "actionStep prev line c =
    (if c = CHR ''}'' then ClosingBrace
     else if c = CHR 0x22 \<or> c = CHR 0x27 then InQuote c False
     else if c = CHR 0x60 then InRaw
     else if isWordChar c
       then InWord (prev \<noteq> CHR ''.'' \<and> prev \<noteq> CHR ''$'' \<and> \<not> isDigit c) [c] line
     else InAction c)"

text \<open>One character: the next state, and the identifier that has just ended, with the line
  it began on.\<close>

fun lexStep :: "lexState \<Rightarrow> nat \<Rightarrow> char \<Rightarrow> lexState \<times> (string \<times> nat) list" where
  "lexStep InText line c = (if c = CHR ''{'' then SawBrace else InText, [])"
| "lexStep SawBrace line c = (if c = CHR ''{'' then Opened else InText, [])"
| "lexStep Opened line c =
     (if c = CHR ''-'' then OpenedDash
      else if c = CHR ''/'' then OpenedSlash
      else actionStep (CHR '' '') line c, [])"
| "lexStep OpenedDash line c =
     (if isSpace c then Trimmed else actionStep (CHR ''-'') line c, [])"
| "lexStep Trimmed line c =
     (if c = CHR ''/'' then OpenedSlash else actionStep (CHR '' '') line c, [])"
| "lexStep OpenedSlash line c =
     (if c = CHR ''*'' then InComment else actionStep (CHR ''/'') line c, [])"
| "lexStep InComment line c = (if c = CHR ''*'' then CommentStar else InComment, [])"
| "lexStep CommentStar line c =
     (if c = CHR ''/'' then InAction (CHR '' '')
      else if c = CHR ''*'' then CommentStar
      else InComment, [])"
| "lexStep (InAction prev) line c = (actionStep prev line c, [])"
| "lexStep (InWord ident w begun) line c =
     (if isWordChar c then (InWord ident (w @ [c]) begun, [])
      else (actionStep (last w) line c,
            if ident \<and> w \<notin> set templateKeywords then [(w, begun)] else []))"
| "lexStep ClosingBrace line c =
     (if c = CHR ''}'' then InText else actionStep (CHR ''}'') line c, [])"
| "lexStep (InQuote q escaped) line c =
     (if escaped then InQuote q False
      else if c = CHR 0x5C then InQuote q True
      else if c = q then InAction q
      else InQuote q False, [])"
| "lexStep InRaw line c = (if c = CHR 0x60 then InAction c else InRaw, [])"

text \<open>The lexer over a source: the identifiers in the order they end, each with its line, and
  the state at the end of the source. \<open>found\<close> are the identifiers read so far.\<close>

fun lexRun ::
  "(string \<times> nat) list \<Rightarrow> lexState \<Rightarrow> nat \<Rightarrow> string \<Rightarrow> (string \<times> nat) list \<times> lexState" where
  "lexRun found st line [] = (found, st)"
| "lexRun found st line (c # cs) =
     lexRun (found @ snd (lexStep st line c)) (fst (lexStep st line c))
       (if c = CHR 0x0A then Suc line else line) cs"



subsection \<open>Concrete surroundings for the scenarios\<close>

text \<open>The theorems below hold for every decoder, parser and cloud. The scenarios need
  particular ones. These stand in for the libraries there: the decoder of
  \<^verbatim>\<open>base64.StdEncoding\<close>, a parser that checks the functions a template applies and that
  its last action is closed and accepts everything else, and clouds with fixed answers.\<close>

text \<open>A number in decimal digits, as \<^verbatim>\<open>%d\<close> prints it.\<close>

function showNat :: "nat \<Rightarrow> string" where
  "showNat n = (if n < 10 then [char_of (48 + n)] else showNat (n div 10) @ [char_of (48 + n mod 10)])"
  by pat_completeness auto
termination
  by (relation "measure id") auto

text \<open>\<^verbatim>\<open>decodeMap\<close> of the standard encoding: the value of a character of the alphabet, and
  255 for every other byte.\<close>

definition decodeMap :: "char \<Rightarrow> nat" where
  "decodeMap c =
    (let n = (of_char c :: nat) in
     if 65 \<le> n \<and> n \<le> 90 then n - 65
     else if 97 \<le> n \<and> n \<le> 122 then n - 71
     else if 48 \<le> n \<and> n \<le> 57 then n + 4
     else if n = 43 then 62
     else if n = 47 then 63
     else 255)"

text \<open>The first \<open>k\<close> bytes of the three that four 6-bit values make; values that are missing
  count as 0.\<close>

definition quantumBytes :: "nat list \<Rightarrow> nat \<Rightarrow> string" where
  "quantumBytes vals k =
    (let v = foldl (\<lambda>a x. a * 64 + x) 0 (take 4 (vals @ [0, 0, 0, 0]))
     in take k [char_of (v div 65536), char_of (v div 256 mod 256), char_of (v mod 256)])"

definition isNewline :: "char \<Rightarrow> bool" where
  "isNewline c = (c = CHR 0x0A \<or> c = CHR 0x0D)"

text \<open>What \<^verbatim>\<open>decodeQuantum\<close> does behind a padding character \<^verbatim>\<open>=\<close> at index \<open>si\<close> that
  follows two or three values: with two values a second \<^verbatim>\<open>=\<close> must follow; line feeds and
  carriage returns are skipped; anything behind the padding is an error, reported with the
  bytes of the group.\<close>

definition stdPadding :: "string \<Rightarrow> nat list \<Rightarrow> nat \<Rightarrow> string \<Rightarrow> string \<times> nat option" where
  "stdPadding out vals si cs =
    (if length vals = 2
     then (let cs1 = dropWhile isNewline cs;
               si1 = Suc si + (length cs - length cs1)
           in case cs1 of
                [] \<Rightarrow> (out, Some si1)
              | e # cs2 \<Rightarrow>
                  if e = CHR ''=''
                  then (let cs3 = dropWhile isNewline cs2;
                            si3 = Suc si1 + (length cs2 - length cs3)
                        in (out @ quantumBytes vals 1, if cs3 = [] then None else Some si3))
                  else (out, Some (si1 - 1)))
     else (let cs3 = dropWhile isNewline cs;
               si3 = Suc si + (length cs - length cs3)
           in (out @ quantumBytes vals 2, if cs3 = [] then None else Some si3)))"

text \<open>The decoding loop of \<^verbatim>\<open>encoding/base64\<close> for the standard encoding, which pads with
  \<^verbatim>\<open>=\<close>. \<open>out\<close> are the bytes decoded so far, \<open>vals\<close> the values read of the current group
  of four and \<open>si\<close> the index of the next input byte. Line feeds and carriage returns are
  skipped. The result is the bytes decoded and, when the input is corrupt, the index the
  error names; the bytes decoded before the error are returned with it.\<close>

fun stdDecode :: "string \<Rightarrow> nat list \<Rightarrow> nat \<Rightarrow> string \<Rightarrow> string \<times> nat option" where
  "stdDecode out vals si [] = (out, if vals = [] then None else Some (si - length vals))"
| "stdDecode out vals si (c # cs) =
     (if decodeMap c = 255
      then (if isNewline c then stdDecode out vals (Suc si) cs
            else if c = CHR ''='' \<and> 2 \<le> length vals then stdPadding out vals si cs
            else (out, Some si))
      else if length vals = 3
        then stdDecode (out @ quantumBytes (vals @ [decodeMap c]) 3) [] (Suc si) cs
      else stdDecode out (vals @ [decodeMap c]) (Suc si) cs)"

text \<open>\<^verbatim>\<open>base64.StdEncoding.DecodeString\<close>, with the message of \<^verbatim>\<open>CorruptInputError\<close>.\<close>

definition stdDecodeString :: "string \<Rightarrow> string \<times> error option" where
  "stdDecodeString s =
    (case stdDecode [] [] 0 s of
       (bytes, None) \<Rightarrow> (bytes, None)
     | (bytes, Some at) \<Rightarrow> (bytes, Some (''illegal base64 data at input byte '' @ showNat at)))"

text \<open>The parser of the scenarios: the template is its source. A source is refused at the
  first function it applies that is neither in the function map nor a builtin, with the
  message of \<^verbatim>\<open>text/template\<close>, and when it ends inside an action. The other errors of the
  library are not looked for: everything else is accepted.\<close>

definition checkedParse :: "string list \<Rightarrow> string \<Rightarrow> string option \<times> error option" where
  "checkedParse funcs src =
    (case lexRun [] InText 1 src of
       (found, fin) \<Rightarrow>
         (case filter (\<lambda>(f, line). f \<notin> set funcs \<and> f \<notin> set templateBuiltins) found of
            (f, line) # rest \<Rightarrow>
              (None, Some (''template: nameTemplate:'' @ showNat line @ '': function '' @
                           [CHR 0x22] @ f @ [CHR 0x22] @ '' not defined''))
          | [] \<Rightarrow>
              if fin = InText \<or> fin = SawBrace then (Some src, None)
              else (None, Some ''template: nameTemplate: unclosed action'')))"

text \<open>A cloud whose answers do not change: \<open>get\<close> answers \<^verbatim>\<open>Server.Get\<close>, \<open>del\<close> answers
  \<^verbatim>\<open>Server.Delete\<close>, and a listing finds the servers \<open>all\<close>.\<close>

definition fixedCloud ::
  "(string \<Rightarrow> string option \<times> error option) \<Rightarrow> error option \<Rightarrow> string list \<Rightarrow>
     string hcloud_API" where
  "fixedCloud get del all =
    \<lparr>answerGet = (\<lambda>h idOrName. get idOrName), answerDelete = (\<lambda>h server. del),
     answerAllWithOpts = (\<lambda>h perPage labelSelector. (all, None))\<rparr>"

text \<open>A cloud with no server: every lookup finds nothing.\<close>

definition emptyCloud :: "string hcloud_API" where
  "emptyCloud = fixedCloud (\<lambda>i. (None, None)) (Some ''server not found'') []"

text \<open>A cloud that cannot be reached.\<close>

definition unreachableCloud :: "string hcloud_API" where
  "unreachableCloud =
    fixedCloud (\<lambda>i. (None, Some ''connection refused'')) (Some ''connection refused'') []"

text \<open>A cloud with the one server \<^verbatim>\<open>worker-1\<close>, whose id is 4711 and which is locked: it is
  found and cannot be deleted.\<close>

definition lockedCloud :: "string hcloud_API" where
  "lockedCloud =
    fixedCloud (\<lambda>i. if i = ''4711'' \<or> i = ''worker-1'' then (Some ''worker-1'', None)
                     else (None, None))
      (Some ''server is locked'') [''worker-1'']"

definition scenario ::
  "(string \<times> string) list \<Rightarrow> string hcloud_API \<Rightarrow> (string, string) externals" where
  "scenario env api =
    \<lparr>environ = map_of env, base64_DecodeString = stdDecodeString,
     template_Parse = checkedParse, hcloud = api\<rparr>"

text \<open>Scenario A of the specification: token \<^verbatim>\<open>t1\<close>, cloud-init \<^verbatim>\<open>aGVsbG8=\<close>, nothing else
  set.\<close>

definition envA :: "(string \<times> string) list" where
  "envA = [(''HCLOUD_TOKEN'', ''t1''), (''HCLOUD_CLOUD_INIT'', ''aGVsbG8='')]"

text \<open>The manager \<^verbatim>\<open>newManager\<close> builds in scenario A, in front of a given cloud and with
  \<^verbatim>\<open>draining-node-pool\<close> for \<^verbatim>\<open>drainingNodePoolId\<close>.\<close>

definition managerA :: "string hcloud_API \<Rightarrow> (string, string) hetznerManager" where
  "managerA api =
    \<lparr>client = \<lparr>token = ''t1'', remote = api, calls = []\<rparr>,
     nodeGroups = [''draining-node-pool'' \<mapsto>
       \<lparr>instanceType = ''cx11'', region = ''fsn1'', targetSize = 0, maxSize = 0, minSize = 0,
        id' = ''draining-node-pool''\<rparr>],
     apiCallContext = Background, cloudInit = ''hello'', image' = ''ubuntu-20.04'',
     nameTemplate = None, sshKeys = [[]]\<rparr>"

definition worker1 :: Node where
  "worker1 = \<lparr>Name = ''worker-1'', ProviderID = ''hcloud://4711''\<rparr>"

definition worker2 :: Node where
  "worker2 = \<lparr>Name = ''worker-2'', ProviderID = []\<rparr>"




section \<open>Properties\<close>

subsection \<open>Library functions\<close>

lemma strings_Split_empty: "strings_Split [] '','' = [[]]"
  by (simp add: strings_Split_def)

lemma strings_TrimPrefix_append: "strings_TrimPrefix (pre @ s) pre = s"
  by (simp add: strings_TrimPrefix_def strings_HasPrefix_def)

subsection \<open>The 64-bit counter\<close>

text \<open>Below the largest signed value, 9223372036854775807, adding one to a word adds one to the
  number it stands for; and so for adding \<open>n\<close>, as long as the sum stays in range.\<close>

lemma sint_succ:
  fixes w :: "64 word"
  assumes "sint w < 9223372036854775807"
  shows "sint (w + 1) = sint w + 1"
proof -
  have lo: "- (2 ^ 63) \<le> sint w"
    using sint_ge [of w] by simp
  have "sint (w + 1) = signed_take_bit 63 (sint w + 1)"
    by (simp add: sint_word_ariths)
  also have "\<dots> = sint w + 1"
    using lo assms by (intro signed_take_bit_int_eq_self) simp_all
  finally show ?thesis .
qed

lemma sint_add_of_nat:
  fixes w :: "64 word"
  assumes "sint w + int n \<le> 9223372036854775807"
  shows "sint (w + of_nat n) = sint w + int n"
  using assms
proof (induction n arbitrary: w)
  case 0
  then show ?case by simp
next
  case (Suc n)
  have a: "sint w < 9223372036854775807"
    using Suc.prems by simp
  have b: "sint (w + 1) + int n \<le> 9223372036854775807"
    using Suc.prems by (simp add: sint_succ [OF a])
  have "sint (w + of_nat (Suc n)) = sint ((w + 1) + of_nat n)"
    by (simp add: add.assoc)
  also have "\<dots> = sint (w + 1) + int n"
    by (rule Suc.IH [OF b])
  also have "\<dots> = sint w + int (Suc n)"
    by (simp add: sint_succ [OF a])
  finally show ?case .
qed

lemma sint_max_succ:
  "sint (9223372036854775807 :: 64 word) = 9223372036854775807 \<and>
   sint (9223372036854775807 + 1 :: 64 word) = - 9223372036854775808"
  by simp

subsection \<open>The scenarios\<close>

lemma stdDecodeString_hello: "stdDecodeString ''aGVsbG8='' = (''hello'', None)"
  by (simp add: stdDecodeString_def stdPadding_def decodeMap_def isNewline_def quantumBytes_def
      char_of_def bit_Suc_0_iff)

lemma newManager_scenarioA:
  "newManager (scenario envA api) ''draining-node-pool'' = (Some (managerA api), None)"
  by (simp add: newManager_def scenario_def envA_def managerA_def os_Getenv_def NewClient_def
      strings_Split_def stdDecodeString_hello)

lemma managerA_draining:
  "nodeGroups (managerA api) ''draining-node-pool'' =
     Some \<lparr>instanceType = ''cx11'', region = ''fsn1'', targetSize = 0, maxSize = 0, minSize = 0,
           id' = ''draining-node-pool''\<rparr>"
  by (simp add: managerA_def)

subsection \<open>Draining\<close>

lemma addNodeToDrainingPool_Some:
  assumes "nodeGroups m d = Some g"
  shows "addNodeToDrainingPool d m node =
           Some ((Some (g\<lparr>targetSize := targetSize g + 1\<rparr>), None),
                 m\<lparr>nodeGroups := (nodeGroups m)(d \<mapsto> g\<lparr>targetSize := targetSize g + 1\<rparr>)\<rparr>)"
  using assms by (simp add: addNodeToDrainingPool_def Let_def)

lemma drainAll_Some:
  assumes "nodeGroups m d = Some g"
  shows "drainAll d m nodes =
           Some (m\<lparr>nodeGroups :=
                     (nodeGroups m)(d \<mapsto> g\<lparr>targetSize := targetSize g + of_nat (length nodes)\<rparr>)\<rparr>)"
  using assms
proof (induction nodes arbitrary: m g)
  case Nil
  then show ?case by (simp add: map_upd_triv)
next
  case (Cons node nodes)
  let ?g1 = "g\<lparr>targetSize := targetSize g + 1\<rparr>"
  let ?m1 = "m\<lparr>nodeGroups := (nodeGroups m)(d \<mapsto> ?g1)\<rparr>"
  have step: "addNodeToDrainingPool d m node = Some ((Some ?g1, None), ?m1)"
    using Cons.prems by (rule addNodeToDrainingPool_Some)
  have g1: "nodeGroups ?m1 d = Some ?g1" by simp
  have "drainAll d m (node # nodes) = drainAll d ?m1 nodes"
    using step by simp
  also have "\<dots> = Some (?m1\<lparr>nodeGroups :=
      (nodeGroups ?m1)(d \<mapsto> ?g1\<lparr>targetSize := targetSize ?g1 + of_nat (length nodes)\<rparr>)\<rparr>)"
    by (rule Cons.IH [OF g1])
  also have "\<dots> = Some (m\<lparr>nodeGroups :=
      (nodeGroups m)(d \<mapsto> g\<lparr>targetSize := targetSize g + of_nat (length (node # nodes))\<rparr>)\<rparr>)"
    by (cases m) (simp add: add.assoc)
  finally show ?case .
qed

text \<open>C1: for every manager that has its draining group, a call of
  \<^verbatim>\<open>addNodeToDrainingPool\<close> returns the draining group of the manager it leaves, that group is
  the old one with \<open>targetSize\<close> incremented by one, and the client, with the calls made
  through it, is as before: no remote call is issued. Calling it for each of \<open>N\<close> nodes in
  turn leaves \<open>targetSize\<close> at \<open>k + N\<close>, again without a remote call. The sums are the ones of
  the counter's 64-bit type, for every state; they are the sums of the numbers as well
  whenever \<open>k + N\<close> does not exceed the largest value of the type.\<close>

theorem C1_drain_counts:
  assumes "nodeGroups m d = Some g"
  shows "(\<exists>m'. addNodeToDrainingPool d m node = Some ((nodeGroups m' d, None), m') \<and>
               nodeGroups m' d = Some (g\<lparr>targetSize := targetSize g + 1\<rparr>) \<and>
               client m' = client m) \<and>
         (sint (targetSize g) < 9223372036854775807 \<longrightarrow>
            sint (targetSize g + 1) = sint (targetSize g) + 1) \<and>
         (\<exists>m'' g''. drainAll d m nodes = Some m'' \<and> nodeGroups m'' d = Some g'' \<and>
               targetSize g'' = targetSize g + of_nat (length nodes) \<and>
               client m'' = client m \<and>
               (sint (targetSize g) + int (length nodes) \<le> 9223372036854775807 \<longrightarrow>
                  sint (targetSize g'') = sint (targetSize g) + int (length nodes)))"
proof (intro conjI)
  show "\<exists>m'. addNodeToDrainingPool d m node = Some ((nodeGroups m' d, None), m') \<and>
              nodeGroups m' d = Some (g\<lparr>targetSize := targetSize g + 1\<rparr>) \<and>
              client m' = client m"
    using addNodeToDrainingPool_Some [OF assms, of node] by simp
next
  show "sint (targetSize g) < 9223372036854775807 \<longrightarrow>
          sint (targetSize g + 1) = sint (targetSize g) + 1"
    by (simp add: sint_succ)
next
  show "\<exists>m'' g''. drainAll d m nodes = Some m'' \<and> nodeGroups m'' d = Some g'' \<and>
               targetSize g'' = targetSize g + of_nat (length nodes) \<and>
               client m'' = client m \<and>
               (sint (targetSize g) + int (length nodes) \<le> 9223372036854775807 \<longrightarrow>
                  sint (targetSize g'') = sint (targetSize g) + int (length nodes))"
    using drainAll_Some [OF assms, of nodes] by (simp add: sint_add_of_nat)
qed

theorem C1_drain_counts_witness:
  "nodeGroups (managerA emptyCloud) ''draining-node-pool'' =
     Some \<lparr>instanceType = ''cx11'', region = ''fsn1'', targetSize = 0, maxSize = 0, minSize = 0,
           id' = ''draining-node-pool''\<rparr> \<and>
   (\<exists>m g. drainAll ''draining-node-pool'' (managerA emptyCloud) [worker1, worker2, worker1] = Some m \<and>
          nodeGroups m ''draining-node-pool'' = Some g \<and> targetSize g = 3 \<and>
          sint (targetSize g) = 3 \<and> calls (client m) = [])"
proof -
  let ?g = "\<lparr>instanceType = ''cx11'', region = ''fsn1'', targetSize = 0, maxSize = 0,
             minSize = 0, id' = ''draining-node-pool''\<rparr>"
  have h: "nodeGroups (managerA emptyCloud) ''draining-node-pool'' = Some ?g"
    by (rule managerA_draining)
  have c: "calls (client (managerA emptyCloud)) = []"
    by (simp add: managerA_def)
  have b: "sint (targetSize ?g) + int (length [worker1, worker2, worker1]) \<le> 9223372036854775807"
    by simp
  from C1_drain_counts [OF h, of worker1 "[worker1, worker2, worker1]"] b
  obtain m g where "drainAll ''draining-node-pool'' (managerA emptyCloud) [worker1, worker2, worker1] = Some m"
    and "nodeGroups m ''draining-node-pool'' = Some g" and "targetSize g = 3"
    and "sint (targetSize g) = 3"
    and "client m = client (managerA emptyCloud)"
    by auto
  with h c show ?thesis by auto
qed

text \<open>C10: whatever the node, \<^verbatim>\<open>addNodeToDrainingPool\<close> does the same: two calls on one
  manager with two nodes have the same result and leave the same manager. On a manager that
  has its draining group the call returns, and the error it returns is \<^verbatim>\<open>nil\<close>.\<close>

theorem C10_drain_ignores_node:
  "addNodeToDrainingPool d m node = addNodeToDrainingPool d m node' \<and>
   (nodeGroups m d \<noteq> None \<longrightarrow>
      (\<exists>g m'. addNodeToDrainingPool d m node = Some ((Some g, None), m')))"
  by (auto simp: addNodeToDrainingPool_def Let_def)

theorem C10_drain_ignores_node_witness:
  "nodeGroups (managerA emptyCloud) ''draining-node-pool'' \<noteq> None \<and>
   addNodeToDrainingPool ''draining-node-pool'' (managerA emptyCloud)
       \<lparr>Name = ''no-such-node'', ProviderID = ''hcloud://0''\<rparr> =
     addNodeToDrainingPool ''draining-node-pool'' (managerA emptyCloud) worker1 \<and>
   (\<exists>g m'. addNodeToDrainingPool ''draining-node-pool'' (managerA emptyCloud)
             \<lparr>Name = ''no-such-node'', ProviderID = ''hcloud://0''\<rparr> =
           Some ((Some g, None), m'))"
proof -
  have h: "nodeGroups (managerA emptyCloud) ''draining-node-pool'' \<noteq> None"
    by (simp add: managerA_def)
  from C10_drain_ignores_node [of "''draining-node-pool''" "managerA emptyCloud"
      "\<lparr>Name = ''no-such-node'', ProviderID = ''hcloud://0''\<rparr>" worker1] h
  show ?thesis by blast
qed

subsection \<open>Resolving and deleting\<close>

lemma serverForNode_calls:
  "calls (client (snd (serverForNode p m node))) =
     calls (client m) @ [ServerGet (nodeIdOrName p node)]"
  by (simp add: serverForNode_def Server_Get_def split: prod.splits option.splits)

lemma serverForNode_result:
  "fst (serverForNode p m node) =
     (case answerGet (remote (client m)) (calls (client m)) (nodeIdOrName p node) of
        (server, Some err) \<Rightarrow>
          (None, Some (''failed to get servers for node '' @ Name node @ '' error: '' @ err))
      | (server, None) \<Rightarrow> (server, None))"
  by (simp add: serverForNode_def Server_Get_def split: prod.splits option.splits)

lemma serverForNode_manager:
  "snd (serverForNode p m node) =
     m\<lparr>client := (client m)\<lparr>calls := calls (client m) @ [ServerGet (nodeIdOrName p node)]\<rparr>\<rparr>"
  by (simp add: serverForNode_def Server_Get_def split: prod.splits option.splits)

text \<open>C2, as the code has it: when \<^verbatim>\<open>Server.Get\<close> answers with no server and no error,
  which is how the client reports a server it does not find, \<^verbatim>\<open>serverForNode\<close> returns that
  \<^verbatim>\<open>nil\<close> server with a \<^verbatim>\<open>nil\<close> error; it does not fail. When \<^verbatim>\<open>Server.Get\<close> answers with
  an error, \<^verbatim>\<open>serverForNode\<close> returns no server and the error
  \<^verbatim>\<open>failed to get servers for node <name> error: <error>\<close>. When it answers with a server and
  no error, that server is returned.\<close>

theorem C2_serverForNode_results:
  "(answerGet (remote (client m)) (calls (client m)) (nodeIdOrName p node) = (None, None) \<longrightarrow>
      fst (serverForNode p m node) = (None, None)) \<and>
   (answerGet (remote (client m)) (calls (client m)) (nodeIdOrName p node) = (found, Some err) \<longrightarrow>
      fst (serverForNode p m node) =
        (None, Some (''failed to get servers for node '' @ Name node @ '' error: '' @ err))) \<and>
   (answerGet (remote (client m)) (calls (client m)) (nodeIdOrName p node) = (Some server, None) \<longrightarrow>
      fst (serverForNode p m node) = (Some server, None))"
  by (simp add: serverForNode_result)

theorem C2_serverForNode_results_witness:
  "answerGet (remote (client (managerA emptyCloud))) (calls (client (managerA emptyCloud)))
       (nodeIdOrName ''hcloud://'' worker1) = (None, None) \<and>
   fst (serverForNode ''hcloud://'' (managerA emptyCloud) worker1) = (None, None) \<and>
   answerGet (remote (client (managerA unreachableCloud))) (calls (client (managerA unreachableCloud)))
       (nodeIdOrName ''hcloud://'' worker1) = (None, Some ''connection refused'') \<and>
   fst (serverForNode ''hcloud://'' (managerA unreachableCloud) worker1) =
     (None, Some ''failed to get servers for node worker-1 error: connection refused'') \<and>
   answerGet (remote (client (managerA lockedCloud))) (calls (client (managerA lockedCloud)))
       (nodeIdOrName ''hcloud://'' worker1) = (Some ''worker-1'', None) \<and>
   fst (serverForNode ''hcloud://'' (managerA lockedCloud) worker1) = (Some ''worker-1'', None)"
proof -
  have a: "answerGet (remote (client (managerA emptyCloud))) (calls (client (managerA emptyCloud)))
       (nodeIdOrName ''hcloud://'' worker1) = (None, None)"
    by (simp add: managerA_def emptyCloud_def fixedCloud_def)
  have b: "answerGet (remote (client (managerA unreachableCloud)))
       (calls (client (managerA unreachableCloud)))
       (nodeIdOrName ''hcloud://'' worker1) = (None, Some ''connection refused'')"
    by (simp add: managerA_def unreachableCloud_def fixedCloud_def)
  have c: "answerGet (remote (client (managerA lockedCloud))) (calls (client (managerA lockedCloud)))
       (nodeIdOrName ''hcloud://'' worker1) = (Some ''worker-1'', None)"
    by (simp add: managerA_def lockedCloud_def fixedCloud_def nodeIdOrName_def worker1_def
        strings_TrimPrefix_def strings_HasPrefix_def)
  have n: "Name worker1 = ''worker-1''"
    by (simp add: worker1_def)
  from a b c n
    C2_serverForNode_results [of "managerA emptyCloud" "''hcloud://''" worker1]
    C2_serverForNode_results [of "managerA unreachableCloud" "''hcloud://''" worker1 None
      "''connection refused''"]
    C2_serverForNode_results [of "managerA lockedCloud" "''hcloud://''" worker1 _ _ "''worker-1''"]
  show ?thesis by simp
qed

text \<open>C2 as the specification states it fails: in front of a cloud that finds no server,
  \<^verbatim>\<open>Server.Get\<close> answers the lookup of node \<^verbatim>\<open>worker-1\<close> with no server and no error, and the
  error \<^verbatim>\<open>serverForNode\<close> returns is \<^verbatim>\<open>nil\<close>, not a not-found error.\<close>

theorem C2_not_found_counterexample:
  "answerGet (remote (client (managerA emptyCloud))) (calls (client (managerA emptyCloud)))
       (nodeIdOrName ''hcloud://'' worker1) = (None, None) \<and>
   snd (fst (serverForNode ''hcloud://'' (managerA emptyCloud) worker1)) = None"
  by (simp add: serverForNode_result managerA_def emptyCloud_def fixedCloud_def)

text \<open>C3: a node with a provider identifier is looked up under that identifier without the
  prefix \<^verbatim>\<open>providerIDPrefix\<close> (an identifier that is the prefix followed by \<open>ident\<close> is looked up
  as \<open>ident\<close>), and its name plays no part: with another name the same call is made and the
  same server comes back. A node with an empty provider identifier is looked up under its
  name. In both cases the lookup is the one call the resolution makes.\<close>

theorem C3_resolution_precedence:
  "(ProviderID node \<noteq> [] \<longrightarrow>
      calls (client (snd (serverForNode p m node))) =
        calls (client m) @ [ServerGet (strings_TrimPrefix (ProviderID node) p)] \<and>
      calls (client (snd (serverForNode p m (node\<lparr>Name := name'\<rparr>)))) =
        calls (client (snd (serverForNode p m node))) \<and>
      fst (fst (serverForNode p m (node\<lparr>Name := name'\<rparr>))) = fst (fst (serverForNode p m node))) \<and>
   (ProviderID node \<noteq> [] \<and> ProviderID node = p @ ident \<longrightarrow>
      calls (client (snd (serverForNode p m node))) = calls (client m) @ [ServerGet ident]) \<and>
   (ProviderID node = [] \<longrightarrow>
      calls (client (snd (serverForNode p m node))) = calls (client m) @ [ServerGet (Name node)])"
  by (auto simp: serverForNode_calls serverForNode_result nodeIdOrName_def
      strings_TrimPrefix_append split: prod.splits option.splits)

theorem C3_resolution_precedence_witness:
  "ProviderID worker1 \<noteq> [] \<and> ProviderID worker1 = ''hcloud://'' @ ''4711'' \<and>
   calls (client (snd (serverForNode ''hcloud://'' (managerA lockedCloud) worker1))) =
     [ServerGet ''4711''] \<and>
   calls (client (snd (serverForNode ''hcloud://'' (managerA lockedCloud)
       (worker1\<lparr>Name := ''renamed''\<rparr>)))) = [ServerGet ''4711''] \<and>
   ProviderID worker2 = [] \<and>
   calls (client (snd (serverForNode ''hcloud://'' (managerA lockedCloud) worker2))) =
     [ServerGet ''worker-2'']"
proof -
  have a: "ProviderID worker1 \<noteq> []" and b: "ProviderID worker1 = ''hcloud://'' @ ''4711''"
    by (simp_all add: worker1_def)
  have c: "ProviderID worker2 = []" and d: "Name worker2 = ''worker-2''"
    by (simp_all add: worker2_def)
  have e: "calls (client (managerA lockedCloud)) = []"
    by (simp add: managerA_def)
  from a b c d e
    C3_resolution_precedence [of worker1 "''hcloud://''" "managerA lockedCloud" "''renamed''" "''4711''"]
    C3_resolution_precedence [of worker2 "''hcloud://''" "managerA lockedCloud"]
  show ?thesis by (simp add: strings_TrimPrefix_def strings_HasPrefix_def)
qed

lemma deleteByNode_unfold:
  "deleteByNode p m node =
    (case fst (serverForNode p m node) of
       (server, Some err) \<Rightarrow>
         (Some (''failed to delete node '' @ Name node @ '' error: '' @ err),
          snd (serverForNode p m node))
     | (None, None) \<Rightarrow>
         (Some (''failed to delete node '' @ Name node @ '' server not found''),
          snd (serverForNode p m node))
     | (Some server, None) \<Rightarrow> deleteServer (snd (serverForNode p m node)) server)"
  by (simp add: deleteByNode_def split: prod.splits option.splits)

lemma deleteServer_unfold:
  "deleteServer m server =
     (answerDelete (remote (client m)) (calls (client m)) server,
      m\<lparr>client := (client m)\<lparr>calls := calls (client m) @ [ServerDelete server]\<rparr>\<rparr>)"
  by (simp add: deleteServer_def Server_Delete_def)

text \<open>C6: \<^verbatim>\<open>deleteByNode\<close> looks the node up first. When the lookup finds no server (no
  server and no error), it fails with \<^verbatim>\<open>failed to delete node <name> server not found\<close> and
  the lookup is the only call it has made: no delete call. When the lookup finds a server,
  it makes the delete call for that server next and returns what \<^verbatim>\<open>Server.Delete\<close> answers,
  so an error of the delete call comes back as it is.\<close>

theorem C6_deleteByNode:
  "(answerGet (remote (client m)) (calls (client m)) (nodeIdOrName p node) = (None, None) \<longrightarrow>
      fst (deleteByNode p m node) =
        Some (''failed to delete node '' @ Name node @ '' server not found'') \<and>
      calls (client (snd (deleteByNode p m node))) =
        calls (client m) @ [ServerGet (nodeIdOrName p node)]) \<and>
   (answerGet (remote (client m)) (calls (client m)) (nodeIdOrName p node) = (Some server, None) \<longrightarrow>
      fst (deleteByNode p m node) =
        answerDelete (remote (client m)) (calls (client m) @ [ServerGet (nodeIdOrName p node)])
          server \<and>
      calls (client (snd (deleteByNode p m node))) =
        calls (client m) @ [ServerGet (nodeIdOrName p node), ServerDelete server])"
  by (simp add: deleteByNode_unfold serverForNode_result serverForNode_manager
      deleteServer_unfold)

theorem C6_deleteByNode_witness:
  "answerGet (remote (client (managerA emptyCloud))) (calls (client (managerA emptyCloud)))
       (nodeIdOrName ''hcloud://'' worker1) = (None, None) \<and>
   fst (deleteByNode ''hcloud://'' (managerA emptyCloud) worker1) =
     Some ''failed to delete node worker-1 server not found'' \<and>
   calls (client (snd (deleteByNode ''hcloud://'' (managerA emptyCloud) worker1))) =
     [ServerGet ''4711''] \<and>
   answerGet (remote (client (managerA lockedCloud))) (calls (client (managerA lockedCloud)))
       (nodeIdOrName ''hcloud://'' worker1) = (Some ''worker-1'', None) \<and>
   answerDelete (remote (client (managerA lockedCloud))) [ServerGet ''4711''] ''worker-1'' =
     Some ''server is locked'' \<and>
   fst (deleteByNode ''hcloud://'' (managerA lockedCloud) worker1) = Some ''server is locked'' \<and>
   calls (client (snd (deleteByNode ''hcloud://'' (managerA lockedCloud) worker1))) =
     [ServerGet ''4711'', ServerDelete ''worker-1'']"
proof -
  have q: "nodeIdOrName ''hcloud://'' worker1 = ''4711''"
    by (simp add: nodeIdOrName_def worker1_def strings_TrimPrefix_def strings_HasPrefix_def)
  have a: "answerGet (remote (client (managerA emptyCloud))) (calls (client (managerA emptyCloud)))
       (nodeIdOrName ''hcloud://'' worker1) = (None, None)"
    by (simp add: managerA_def emptyCloud_def fixedCloud_def)
  have b: "answerGet (remote (client (managerA lockedCloud))) (calls (client (managerA lockedCloud)))
       (nodeIdOrName ''hcloud://'' worker1) = (Some ''worker-1'', None)"
    by (simp add: q managerA_def lockedCloud_def fixedCloud_def)
  have c: "answerDelete (remote (client (managerA lockedCloud))) [ServerGet ''4711''] ''worker-1'' =
     Some ''server is locked''"
    by (simp add: managerA_def lockedCloud_def fixedCloud_def)
  have d: "calls (client (managerA emptyCloud)) = []" "calls (client (managerA lockedCloud)) = []"
    "Name worker1 = ''worker-1''"
    by (simp_all add: managerA_def worker1_def)
  from a b c d q
    C6_deleteByNode [of "managerA emptyCloud" "''hcloud://''" worker1]
    C6_deleteByNode [of "managerA lockedCloud" "''hcloud://''" worker1 "''worker-1''"]
  show ?thesis by simp
qed

subsection \<open>Construction\<close>

lemma newManager_no_token:
  assumes "os_Getenv (environ ext) ''HCLOUD_TOKEN'' = []"
  shows "newManager ext d = (None, Some ''`HCLOUD_TOKEN` is not specified'')"
  using assms by (simp add: newManager_def)

lemma newManager_no_cloudInit:
  assumes "os_Getenv (environ ext) ''HCLOUD_TOKEN'' \<noteq> []"
    and "os_Getenv (environ ext) ''HCLOUD_CLOUD_INIT'' = []"
  shows "newManager ext d = (None, Some ''`HCLOUD_CLOUD_INIT` is not specified'')"
  using assms by (simp add: newManager_def)


lemma newManager_bad_cloudInit:
  assumes "os_Getenv (environ ext) ''HCLOUD_TOKEN'' \<noteq> []"
    and "os_Getenv (environ ext) ''HCLOUD_CLOUD_INIT'' \<noteq> []"
    and "os_Getenv (environ ext) ''HCLOUD_NAME_TEMPLATE'' = [] \<or>
         snd (template_Parse ext nameTemplateFuncMap
                (os_Getenv (environ ext) ''HCLOUD_NAME_TEMPLATE'')) = None"
    and "snd (base64_DecodeString ext (os_Getenv (environ ext) ''HCLOUD_CLOUD_INIT'')) = Some err"
  shows "newManager ext d = (None, Some (''failed to parse cloud init error: '' @ err))"
  using assms by (auto simp: newManager_def Let_def)

lemma newManager_ok:
  assumes "os_Getenv (environ ext) ''HCLOUD_TOKEN'' \<noteq> []"
    and "os_Getenv (environ ext) ''HCLOUD_CLOUD_INIT'' \<noteq> []"
    and "os_Getenv (environ ext) ''HCLOUD_NAME_TEMPLATE'' = [] \<or>
         snd (template_Parse ext nameTemplateFuncMap
                (os_Getenv (environ ext) ''HCLOUD_NAME_TEMPLATE'')) = None"
    and "snd (base64_DecodeString ext (os_Getenv (environ ext) ''HCLOUD_CLOUD_INIT'')) = None"
  shows "newManager ext d =
    (Some \<lparr>client = NewClient (hcloud ext) (os_Getenv (environ ext) ''HCLOUD_TOKEN''),
           nodeGroups = [d \<mapsto> \<lparr>instanceType = ''cx11'', region = ''fsn1'', targetSize = 0,
                                maxSize = 0, minSize = 0, id' = d\<rparr>],
           apiCallContext = Background,
           cloudInit = fst (base64_DecodeString ext (os_Getenv (environ ext) ''HCLOUD_CLOUD_INIT'')),
           image' = (if os_Getenv (environ ext) ''HCLOUD_IMAGE'' = [] then ''ubuntu-20.04''
                     else os_Getenv (environ ext) ''HCLOUD_IMAGE''),
           nameTemplate =
             (if os_Getenv (environ ext) ''HCLOUD_NAME_TEMPLATE'' \<noteq> []
              then fst (template_Parse ext nameTemplateFuncMap
                          (os_Getenv (environ ext) ''HCLOUD_NAME_TEMPLATE''))
              else None),
           sshKeys = strings_Split (os_Getenv (environ ext) ''HCLOUD_SSH_KEY'') '',''\<rparr>,
     None)"
  using assms by (auto simp: newManager_def Let_def)

lemma newManager_draining:
  assumes "newManager ext d = (Some m, None)"
  shows "nodeGroups m d = Some \<lparr>instanceType = ''cx11'', region = ''fsn1'', targetSize = 0,
                               maxSize = 0, minSize = 0, id' = d\<rparr>"
  using assms by (auto simp: newManager_def Let_def split: if_splits option.splits)

lemma newManager_cases:
  "(\<exists>err. newManager ext d = (None, Some err)) \<or> (\<exists>m. newManager ext d = (Some m, None))"
  by (simp add: newManager_def Let_def split: option.splits)

lemma newManager_error:
  assumes "os_Getenv (environ ext) ''HCLOUD_TOKEN'' = [] \<or>
           os_Getenv (environ ext) ''HCLOUD_CLOUD_INIT'' = [] \<or>
           snd (base64_DecodeString ext (os_Getenv (environ ext) ''HCLOUD_CLOUD_INIT'')) \<noteq> None \<or>
           (os_Getenv (environ ext) ''HCLOUD_NAME_TEMPLATE'' \<noteq> [] \<and>
            snd (template_Parse ext nameTemplateFuncMap
                   (os_Getenv (environ ext) ''HCLOUD_NAME_TEMPLATE'')) \<noteq> None)"
  shows "\<exists>err. newManager ext d = (None, Some err)"
  using assms by (auto simp: newManager_def Let_def split: option.splits)

lemma stdDecodeString_junk:
  "stdDecodeString ''%%%'' = ([], Some ''illegal base64 data at input byte 0'')"
  by (simp add: stdDecodeString_def stdPadding_def decodeMap_def isNewline_def quantumBytes_def
      char_of_def bit_Suc_0_iff)

text \<open>C4: with an empty \<^verbatim>\<open>HCLOUD_TOKEN\<close>, \<^verbatim>\<open>newManager\<close> returns no manager and the error
  \<^verbatim>\<open>`HCLOUD_TOKEN` is not specified\<close>; with a token and an empty \<^verbatim>\<open>HCLOUD_CLOUD_INIT\<close>, no
  manager and \<^verbatim>\<open>`HCLOUD_CLOUD_INIT` is not specified\<close>; with both and a cloud-init that the
  decoder refuses (the name template absent or accepted), no manager and
  \<^verbatim>\<open>failed to parse cloud init error: <error>\<close>. Whenever one of the three holds, whatever the
  rest of the configuration, it returns no manager and an error.\<close>

theorem C4_construction_fails:
  "(os_Getenv (environ ext) ''HCLOUD_TOKEN'' = [] \<longrightarrow>
      newManager ext d = (None, Some ''`HCLOUD_TOKEN` is not specified'')) \<and>
   (os_Getenv (environ ext) ''HCLOUD_TOKEN'' \<noteq> [] \<and>
    os_Getenv (environ ext) ''HCLOUD_CLOUD_INIT'' = [] \<longrightarrow>
      newManager ext d = (None, Some ''`HCLOUD_CLOUD_INIT` is not specified'')) \<and>
   (os_Getenv (environ ext) ''HCLOUD_TOKEN'' \<noteq> [] \<and>
    os_Getenv (environ ext) ''HCLOUD_CLOUD_INIT'' \<noteq> [] \<and>
    (os_Getenv (environ ext) ''HCLOUD_NAME_TEMPLATE'' = [] \<or>
     snd (template_Parse ext nameTemplateFuncMap
            (os_Getenv (environ ext) ''HCLOUD_NAME_TEMPLATE'')) = None) \<and>
    snd (base64_DecodeString ext (os_Getenv (environ ext) ''HCLOUD_CLOUD_INIT'')) = Some err \<longrightarrow>
      newManager ext d = (None, Some (''failed to parse cloud init error: '' @ err))) \<and>
   (os_Getenv (environ ext) ''HCLOUD_TOKEN'' = [] \<or>
    os_Getenv (environ ext) ''HCLOUD_CLOUD_INIT'' = [] \<or>
    snd (base64_DecodeString ext (os_Getenv (environ ext) ''HCLOUD_CLOUD_INIT'')) \<noteq> None \<longrightarrow>
      (\<exists>e. newManager ext d = (None, Some e)))"
proof (intro conjI impI)
  assume "os_Getenv (environ ext) ''HCLOUD_TOKEN'' = []"
  then show "newManager ext d = (None, Some ''`HCLOUD_TOKEN` is not specified'')"
    by (rule newManager_no_token)
next
  assume "os_Getenv (environ ext) ''HCLOUD_TOKEN'' \<noteq> [] \<and>
    os_Getenv (environ ext) ''HCLOUD_CLOUD_INIT'' = []"
  then show "newManager ext d = (None, Some ''`HCLOUD_CLOUD_INIT` is not specified'')"
    by (simp add: newManager_no_cloudInit)
next
  assume "os_Getenv (environ ext) ''HCLOUD_TOKEN'' \<noteq> [] \<and>
    os_Getenv (environ ext) ''HCLOUD_CLOUD_INIT'' \<noteq> [] \<and>
    (os_Getenv (environ ext) ''HCLOUD_NAME_TEMPLATE'' = [] \<or>
     snd (template_Parse ext nameTemplateFuncMap
            (os_Getenv (environ ext) ''HCLOUD_NAME_TEMPLATE'')) = None) \<and>
    snd (base64_DecodeString ext (os_Getenv (environ ext) ''HCLOUD_CLOUD_INIT'')) = Some err"
  then show "newManager ext d = (None, Some (''failed to parse cloud init error: '' @ err))"
    by (intro newManager_bad_cloudInit) simp_all
next
  assume "os_Getenv (environ ext) ''HCLOUD_TOKEN'' = [] \<or>
    os_Getenv (environ ext) ''HCLOUD_CLOUD_INIT'' = [] \<or>
    snd (base64_DecodeString ext (os_Getenv (environ ext) ''HCLOUD_CLOUD_INIT'')) \<noteq> None"
  then show "\<exists>e. newManager ext d = (None, Some e)"
    by (intro newManager_error) blast
qed

theorem C4_construction_fails_witness:
  "os_Getenv (environ (scenario [] emptyCloud)) ''HCLOUD_TOKEN'' = [] \<and>
   newManager (scenario [] emptyCloud) ''draining-node-pool'' =
     (None, Some ''`HCLOUD_TOKEN` is not specified'') \<and>
   os_Getenv (environ (scenario [(''HCLOUD_TOKEN'', ''t1'')] emptyCloud)) ''HCLOUD_CLOUD_INIT'' = [] \<and>
   newManager (scenario [(''HCLOUD_TOKEN'', ''t1'')] emptyCloud) ''draining-node-pool'' =
     (None, Some ''`HCLOUD_CLOUD_INIT` is not specified'') \<and>
   snd (base64_DecodeString
          (scenario [(''HCLOUD_TOKEN'', ''t1''), (''HCLOUD_CLOUD_INIT'', ''%%%'')] emptyCloud)
          ''%%%'') = Some ''illegal base64 data at input byte 0'' \<and>
   newManager (scenario [(''HCLOUD_TOKEN'', ''t1''), (''HCLOUD_CLOUD_INIT'', ''%%%'')] emptyCloud)
       ''draining-node-pool'' =
     (None, Some ''failed to parse cloud init error: illegal base64 data at input byte 0'')"
proof -
  let ?e1 = "scenario [] emptyCloud"
  let ?e2 = "scenario [(''HCLOUD_TOKEN'', ''t1'')] emptyCloud"
  let ?e3 = "scenario [(''HCLOUD_TOKEN'', ''t1''), (''HCLOUD_CLOUD_INIT'', ''%%%'')] emptyCloud"
  have a: "os_Getenv (environ ?e1) ''HCLOUD_TOKEN'' = []"
    by (simp add: scenario_def os_Getenv_def)
  have b: "os_Getenv (environ ?e2) ''HCLOUD_TOKEN'' \<noteq> []"
    "os_Getenv (environ ?e2) ''HCLOUD_CLOUD_INIT'' = []"
    by (simp_all add: scenario_def os_Getenv_def)
  have c: "os_Getenv (environ ?e3) ''HCLOUD_TOKEN'' \<noteq> []"
    "os_Getenv (environ ?e3) ''HCLOUD_CLOUD_INIT'' = ''%%%''"
    "os_Getenv (environ ?e3) ''HCLOUD_NAME_TEMPLATE'' = []"
    "snd (base64_DecodeString ?e3 ''%%%'') = Some ''illegal base64 data at input byte 0''"
    by (simp_all add: scenario_def os_Getenv_def stdDecodeString_junk)
  from a b c
    C4_construction_fails [of ?e1 "''draining-node-pool''"]
    C4_construction_fails [of ?e2 "''draining-node-pool''"]
    C4_construction_fails [of ?e3 "''draining-node-pool''" "''illegal base64 data at input byte 0''"]
  show ?thesis by simp
qed

text \<open>C5: with a token, a cloud-init that is present and that the decoder accepts, and no
  name template, \<^verbatim>\<open>newManager\<close> returns a manager and no error. The only key of its
  \<open>nodeGroups\<close> is \<^verbatim>\<open>drainingNodePoolId\<close>, and the group there has instance type \<^verbatim>\<open>cx11\<close>,
  region \<^verbatim>\<open>fsn1\<close> and the sizes 0, 0 and 0. The manager's cloud-init is the decoded one.\<close>

theorem C5_construction_succeeds:
  assumes "os_Getenv (environ ext) ''HCLOUD_TOKEN'' \<noteq> []"
    and "os_Getenv (environ ext) ''HCLOUD_CLOUD_INIT'' \<noteq> []"
    and "snd (base64_DecodeString ext (os_Getenv (environ ext) ''HCLOUD_CLOUD_INIT'')) = None"
    and "os_Getenv (environ ext) ''HCLOUD_NAME_TEMPLATE'' = []"
  shows "\<exists>m. newManager ext d = (Some m, None) \<and>
             dom (nodeGroups m) = {d} \<and>
             nodeGroups m d = Some \<lparr>instanceType = ''cx11'', region = ''fsn1'', targetSize = 0,
                                    maxSize = 0, minSize = 0, id' = d\<rparr> \<and>
             cloudInit m =
               fst (base64_DecodeString ext (os_Getenv (environ ext) ''HCLOUD_CLOUD_INIT'')) \<and>
             nameTemplate m = None"
  using newManager_ok [of ext d] assms by simp

theorem C5_construction_succeeds_witness:
  "os_Getenv (environ (scenario envA emptyCloud)) ''HCLOUD_TOKEN'' = ''t1'' \<and>
   os_Getenv (environ (scenario envA emptyCloud)) ''HCLOUD_CLOUD_INIT'' = ''aGVsbG8='' \<and>
   base64_DecodeString (scenario envA emptyCloud) ''aGVsbG8='' = (''hello'', None) \<and>
   os_Getenv (environ (scenario envA emptyCloud)) ''HCLOUD_NAME_TEMPLATE'' = [] \<and>
   (\<exists>m. newManager (scenario envA emptyCloud) ''draining-node-pool'' = (Some m, None) \<and>
        dom (nodeGroups m) = {''draining-node-pool''} \<and>
        nodeGroups m ''draining-node-pool'' =
          Some \<lparr>instanceType = ''cx11'', region = ''fsn1'', targetSize = 0, maxSize = 0,
                minSize = 0, id' = ''draining-node-pool''\<rparr> \<and>
        cloudInit m = ''hello'')"
proof -
  let ?e = "scenario envA emptyCloud"
  have a: "os_Getenv (environ ?e) ''HCLOUD_TOKEN'' = ''t1''"
    "os_Getenv (environ ?e) ''HCLOUD_CLOUD_INIT'' = ''aGVsbG8=''"
    "base64_DecodeString ?e ''aGVsbG8='' = (''hello'', None)"
    "os_Getenv (environ ?e) ''HCLOUD_NAME_TEMPLATE'' = []"
    by (simp_all add: scenario_def envA_def os_Getenv_def stdDecodeString_hello)
  from a C5_construction_succeeds [of ?e "''draining-node-pool''"]
  show ?thesis by auto
qed

text \<open>C8, on the code: in scenario A, where \<^verbatim>\<open>HCLOUD_SSH_KEY\<close> is not set,
  \<^verbatim>\<open>strings.Split("", ",")\<close> is the list of the one empty string, and that list, not the
  empty one, is the \<open>sshKeys\<close> of the manager \<^verbatim>\<open>newManager\<close> returns.\<close>

theorem C8_sshKeys_of_empty_value:
  "os_Getenv (environ (scenario envA emptyCloud)) ''HCLOUD_SSH_KEY'' = [] \<and>
   strings_Split [] '','' = [[]] \<and>
   newManager (scenario envA emptyCloud) ''draining-node-pool'' =
     (Some (managerA emptyCloud), None) \<and>
   sshKeys (managerA emptyCloud) = [[]] \<and>
   length (sshKeys (managerA emptyCloud)) = 1"
  by (simp add: newManager_scenarioA strings_Split_empty)
    (simp add: scenario_def envA_def os_Getenv_def managerA_def)












subsection \<open>The draining group under the methods of the manager\<close>












end
